theory Spec2Isabelle
  imports Main "HOL-Library.AList"
begin

section \<open>Values, objects and the store\<close>

text \<open>
  The values the repository code handles are JavaScript values. A primitive is a value of
  its own; an object (a plain object, an array, a \<^verbatim>\<open>Date\<close>) is held through a
  reference, so that two occurrences of one reference are one object: copying a value
  copies the reference and never the object behind it.

  Numbers are opaque to the code modelled here (it only moves them), so an integer
  payload stands for them.
\<close>

type_synonym addr = nat

datatype jsval =
    JUndefined
  | JNull
  | JBool bool
  | JNum int
  | JStr string
  | JRef addr

text \<open>
  An object in the store is one that an object literal, \<^verbatim>\<open>JSON.parse\<close>, an array
  literal or \<^verbatim>\<open>new Date\<close> builds: its own string-keyed properties are writable,
  enumerable data properties and its prototype is the built-in one of its kind, which
  ends in \<^verbatim>\<open>Object.prototype\<close>. A plain object is the list of these properties in
  the order \<^verbatim>\<open>Object.entries\<close> yields them; an array is the list of its elements;
  a \<^verbatim>\<open>Date\<close> is its time value. Frozen objects, accessor properties and objects
  whose prototype was replaced are outside the model.
\<close>

datatype jsobj =
    PlainObject "(string \<times> jsval) list"
  | ArrayObject "jsval list"
  | DateObject int

type_synonym heap = "addr \<Rightarrow> jsobj"

text \<open>A store to build examples from: every address holds an object without properties.\<close>

definition empty_store :: heap where
  "empty_store a = PlainObject []"

text \<open>\<^verbatim>\<open>typeof\<close>: \<^verbatim>\<open>null\<close> and every reference answer \<^verbatim>\<open>"object"\<close>.\<close>

fun typeof :: "jsval \<Rightarrow> string" where
  "typeof JUndefined = ''undefined''"
| "typeof JNull = ''object''"
| "typeof (JBool b) = ''boolean''"
| "typeof (JNum n) = ''number''"
| "typeof (JStr s) = ''string''"
| "typeof (JRef a) = ''object''"

text \<open>Decimal rendering of an array index, the property name of an element.\<close>

definition digit_char :: "nat \<Rightarrow> char" where
  "digit_char d = char_of (48 + d)"

function string_of_nat :: "nat \<Rightarrow> string" where
  "string_of_nat n =
     (if n < 10 then [digit_char n]
      else string_of_nat (n div 10) @ [digit_char (n mod 10)])"
  by pat_completeness auto
termination
  by (relation "measure (\<lambda>n. n)") auto

text \<open>
  \<^verbatim>\<open>Object.entries(o)\<close>: the own enumerable string-keyed properties. An array
  yields its elements under their indices, a \<^verbatim>\<open>Date\<close> has none.
\<close>

fun Object_entries :: "jsobj \<Rightarrow> (string \<times> jsval) list" where
  "Object_entries (PlainObject ps) = ps"
| "Object_entries (ArrayObject vs) = zip (map string_of_nat [0..<length vs]) vs"
| "Object_entries (DateObject t) = []"

text \<open>
  \<^verbatim>\<open>Object.entries(val)\<close> for a value that passed
  \<^verbatim>\<open>typeof val === "object" && val !== null\<close>, read through the store.
\<close>

fun entries_of :: "heap \<Rightarrow> jsval \<Rightarrow> (string \<times> jsval) list" where
  "entries_of h (JRef a) = Object_entries (h a)"
| "entries_of h v = []"

text \<open>\<^verbatim>\<open>key.startsWith("$")\<close> and \<^verbatim>\<open>key.includes(".")\<close>.\<close>

fun startsWith_dollar :: "string \<Rightarrow> bool" where
  "startsWith_dollar [] = False"
| "startsWith_dollar (c # cs) = (c = CHR ''$'')"

definition includes_dot :: "string \<Rightarrow> bool" where
  "includes_dot s = (CHR ''.'' \<in> set s)"

section \<open>Own properties and their order\<close>

text \<open>
  The own properties of an object the code builds are held as a list in the order in
  which the object lists its keys: the array indices first, ascending, then the other
  names in the order of their creation. An array index is the canonical decimal text of a
  number below \<open>2\<^sup>3\<^sup>2 - 1\<close>.
\<close>

type_synonym payload = "(string \<times> jsval) list"

definition is_digit :: "char \<Rightarrow> bool" where
  "is_digit c = (c \<in> set ''0123456789'')"

definition digits_value :: "string \<Rightarrow> nat" where
  "digits_value s = foldl (\<lambda>n c. 10 * n + (of_char c - 48)) 0 s"

definition array_index :: "string \<Rightarrow> nat option" where
  "array_index s =
     (if s \<noteq> [] \<and> list_all is_digit s \<and> (s = ''0'' \<or> hd s \<noteq> CHR ''0'')
         \<and> digits_value s < 4294967295
      then Some (digits_value s) else None)"

text \<open>Whether a new key \<open>k\<close> is listed before an existing key \<open>k'\<close>.\<close>

definition listed_before :: "string \<Rightarrow> string \<Rightarrow> bool" where
  "listed_before k k' =
     (case array_index k of
        None \<Rightarrow> False
      | Some n \<Rightarrow> (case array_index k' of None \<Rightarrow> True | Some m \<Rightarrow> n < m))"

fun insert_property :: "string \<Rightarrow> 'v \<Rightarrow> (string \<times> 'v) list \<Rightarrow> (string \<times> 'v) list" where
  "insert_property k v [] = [(k, v)]"
| "insert_property k v (p # ps) =
     (if listed_before k (fst p) then (k, v) # p # ps else p # insert_property k v ps)"

text \<open>
  Creating or overwriting an own data property, as an object literal, a spread and
  \<^verbatim>\<open>Object.fromEntries\<close> do: the value of a key that exists is replaced where it
  stands, a new key is put in its place in the order.
\<close>

definition define_property :: "string \<Rightarrow> 'v \<Rightarrow> (string \<times> 'v) list \<Rightarrow> (string \<times> 'v) list" where
  "define_property k v ps =
     (if k \<in> set (map fst ps) then AList.update k v ps else insert_property k v ps)"

section \<open>The update-payload extractor\<close>

text \<open>
  \<^verbatim>\<open>throw new Error(`Dot notation keys are not supported yet: "${fieldKey}"`)\<close>:
  an error is its message.
\<close>

datatype error = Error string

definition dot_notation_message :: "string \<Rightarrow> string" where
  "dot_notation_message fieldKey =
     ''Dot notation keys are not supported yet: '' @ [CHR 0x22] @ fieldKey @ [CHR 0x22]"

text \<open>
  The accumulator \<^verbatim>\<open>extracted\<close> starts as \<^verbatim>\<open>{}\<close>: no own property, and
  \<^verbatim>\<open>Object.prototype\<close> as its prototype. It is held as its own properties and its
  prototype, which an assignment to \<^verbatim>\<open>__proto__\<close> can replace.
\<close>

datatype prototype = ObjectPrototype | NullPrototype | RefPrototype addr

record accumulator =
  own :: payload
  proto :: prototype

text \<open>
  Whether an assignment to a missing \<^verbatim>\<open>__proto__\<close> reaches the setter of
  \<^verbatim>\<open>Object.prototype\<close> through the prototype chain: not when the chain is empty, and
  not when the prototype has a data property of that name in the way.
\<close>

fun setter_inherited :: "heap \<Rightarrow> prototype \<Rightarrow> bool" where
  "setter_inherited h ObjectPrototype = True"
| "setter_inherited h NullPrototype = False"
| "setter_inherited h (RefPrototype a) = (''__proto__'' \<notin> set (map fst (Object_entries (h a))))"

text \<open>
  The assignment \<^verbatim>\<open>extracted[k] = v\<close>. An own property is overwritten. A missing
  \<^verbatim>\<open>__proto__\<close> that reaches the inherited setter creates no property: the setter
  replaces the prototype when \<open>v\<close> is an object or \<^verbatim>\<open>null\<close> and does nothing
  otherwise. Any other missing key becomes a new own property.
\<close>

definition assign :: "heap \<Rightarrow> string \<Rightarrow> jsval \<Rightarrow> accumulator \<Rightarrow> accumulator" where
  "assign h k v extracted =
     (if k \<in> set (map fst (own extracted))
      then extracted\<lparr>own := AList.update k v (own extracted)\<rparr>
      else if k = ''__proto__'' \<and> setter_inherited h (proto extracted)
      then (case v of
              JRef a \<Rightarrow> extracted\<lparr>proto := RefPrototype a\<rparr>
            | JNull \<Rightarrow> extracted\<lparr>proto := NullPrototype\<rparr>
            | _ \<Rightarrow> extracted)
      else extracted\<lparr>own := insert_property k v (own extracted)\<rparr>)"

text \<open>
  The inner loop of \<^verbatim>\<open>walk\<close>, over the entries of one operator block
  \<^verbatim>\<open>key\<close>: a dotted field name throws, any other is assigned, with
  \<^verbatim>\<open>undefined\<close> under \<^verbatim>\<open>$unset\<close> and the nested value otherwise.
\<close>

fun walk_fields ::
  "heap \<Rightarrow> string \<Rightarrow> (string \<times> jsval) list \<Rightarrow> accumulator \<Rightarrow> error + accumulator" where
  "walk_fields h key [] extracted = Inr extracted"
| "walk_fields h key ((fieldKey, fieldVal) # rest) extracted =
     (if includes_dot fieldKey then Inl (Error (dot_notation_message fieldKey))
      else walk_fields h key rest
             (assign h fieldKey (if key = ''$unset'' then JUndefined else fieldVal) extracted))"

text \<open>
  The outer loop of \<^verbatim>\<open>walk\<close>, over the entries of the update expression in
  their iteration order. An entry under a \<^verbatim>\<open>$\<close> key whose value is not a
  non-null object is passed over.
\<close>

fun walk_entries ::
  "heap \<Rightarrow> (string \<times> jsval) list \<Rightarrow> accumulator \<Rightarrow> error + accumulator" where
  "walk_entries h [] extracted = Inr extracted"
| "walk_entries h ((key, val) # rest) extracted =
     (if startsWith_dollar key then
        (if typeof val = ''object'' \<and> val \<noteq> JNull then
           (case walk_fields h key (entries_of h val) extracted of
              Inl e \<Rightarrow> Inl e
            | Inr extracted' \<Rightarrow> walk_entries h rest extracted')
         else walk_entries h rest extracted)
      else if includes_dot key then Inl (Error (dot_notation_message key))
      else walk_entries h rest (assign h key val extracted))"

definition walk :: "heap \<Rightarrow> jsobj \<Rightarrow> accumulator \<Rightarrow> error + accumulator" where
  "walk h obj extracted = walk_entries h (Object_entries obj) extracted"

text \<open>
  \<^verbatim>\<open>extractUpdatePayload(update)\<close>: the accumulator starts as \<^verbatim>\<open>{}\<close>, and is
  returned only when \<^verbatim>\<open>walk\<close> did not throw. The store is read and never written.
\<close>

definition empty_object :: accumulator where
  "empty_object = \<lparr>own = [], proto = ObjectPrototype\<rparr>"

definition extractUpdatePayload :: "heap \<Rightarrow> jsobj \<Rightarrow> error + accumulator" where
  "extractUpdatePayload h update = walk h update empty_object"

section \<open>What an update expression writes\<close>

text \<open>
  The assignments one operator block makes, in order: each nested field name with the
  value assigned to it.
\<close>

definition block_writes :: "string \<Rightarrow> (string \<times> jsval) list \<Rightarrow> (string \<times> jsval) list" where
  "block_writes key blk =
     map (\<lambda>(fieldKey, fieldVal). (fieldKey, if key = ''$unset'' then JUndefined else fieldVal)) blk"

text \<open>
  The assignments one entry of the update expression stands for: those of its block for
  an operator key over a non-null object, none for an operator key over anything else,
  and the entry itself for a direct key.
\<close>

definition entry_writes :: "heap \<Rightarrow> string \<times> jsval \<Rightarrow> (string \<times> jsval) list" where
  "entry_writes h e =
     (if startsWith_dollar (fst e) then
        (if typeof (snd e) = ''object'' \<and> snd e \<noteq> JNull
         then block_writes (fst e) (entries_of h (snd e)) else [])
      else [e])"

definition writes :: "heap \<Rightarrow> (string \<times> jsval) list \<Rightarrow> (string \<times> jsval) list" where
  "writes h entries = concat (map (entry_writes h) entries)"

text \<open>
  The field names of an update expression, in iteration order: the direct top-level keys
  and the names nested inside the operator blocks.
\<close>

definition field_names :: "heap \<Rightarrow> (string \<times> jsval) list \<Rightarrow> string list" where
  "field_names h entries = map fst (writes h entries)"

text \<open>A run of assignments to the accumulator, in order.\<close>

definition apply_writes :: "heap \<Rightarrow> (string \<times> jsval) list \<Rightarrow> accumulator \<Rightarrow> accumulator" where
  "apply_writes h ws extracted = fold (\<lambda>(k, v). assign h k v) ws extracted"

text \<open>
  The value a block holds for a field name. The property names of an object are distinct,
  so a name has one value there; the list is read from its end, as the loop leaves the
  last assignment standing.
\<close>

definition nested_value :: "(string \<times> jsval) list \<Rightarrow> string \<Rightarrow> jsval option" where
  "nested_value blk f = map_of (rev blk) f"

text \<open>The direct top-level keys of an update expression.\<close>

definition direct_keys :: "(string \<times> jsval) list \<Rightarrow> string list" where
  "direct_keys entries = filter (\<lambda>k. \<not> startsWith_dollar k) (map fst entries)"


section \<open>The two-pass reference algorithm\<close>

text \<open>
  The reference algorithm as the specification words it, over an accumulator that is a
  mapping from field names to values. Step 3b, for the nested mapping of one operator: a
  name with the path separator fails with the dot-notation error; any other is written
  into the accumulator, the absence marker under the unset operator and the nested value
  verbatim otherwise.
\<close>

fun spec_write_nested :: "string \<Rightarrow> (string \<times> jsval) list \<Rightarrow> payload \<Rightarrow> error + payload" where
  "spec_write_nested operator [] acc = Inr acc"
| "spec_write_nested operator ((name, v) # rest) acc =
     (if includes_dot name then Inl (Error (dot_notation_message name))
      else spec_write_nested operator rest
             (define_property name (if operator = ''$unset'' then JUndefined else v) acc))"

text \<open>
  Step 3: every entry whose key begins with the operator prefix, in insertion order; one
  whose value is not a non-null mapping is skipped. Entries with other keys are left to
  step 4.
\<close>

fun spec_step3 :: "heap \<Rightarrow> (string \<times> jsval) list \<Rightarrow> payload \<Rightarrow> error + payload" where
  "spec_step3 h [] acc = Inr acc"
| "spec_step3 h ((key, val) # rest) acc =
     (if startsWith_dollar key then
        (case val of
           JRef a \<Rightarrow>
             (case spec_write_nested key (Object_entries (h a)) acc of
                Inl e \<Rightarrow> Inl e
              | Inr acc' \<Rightarrow> spec_step3 h rest acc')
         | _ \<Rightarrow> spec_step3 h rest acc)
      else spec_step3 h rest acc)"

text \<open>
  Step 4: every entry whose key does not begin with the operator prefix, in insertion
  order; a key with the path separator fails, any other is written verbatim over whatever
  step 3 left for it.
\<close>

fun spec_step4 :: "(string \<times> jsval) list \<Rightarrow> payload \<Rightarrow> error + payload" where
  "spec_step4 [] acc = Inr acc"
| "spec_step4 ((key, val) # rest) acc =
     (if startsWith_dollar key then spec_step4 rest acc
      else if includes_dot key then Inl (Error (dot_notation_message key))
      else spec_step4 rest (define_property key val acc))"

text \<open>Steps 1 to 5: an empty accumulator, step 3 over all entries, then step 4 over all entries.\<close>

definition spec_two_pass :: "heap \<Rightarrow> jsobj \<Rightarrow> error + payload" where
  "spec_two_pass h update =
     (case spec_step3 h (Object_entries update) [] of
        Inl e \<Rightarrow> Inl e
      | Inr acc \<Rightarrow> spec_step4 (Object_entries update) acc)"

section \<open>Repository operations\<close>

text \<open>
  A document is a plain object, held as the list of its properties. The collaborators of
  the repository class are taken as they answer: the schema by its \<^verbatim>\<open>safeParse\<close>,
  the driver's collection by what \<^verbatim>\<open>findOne\<close> and \<^verbatim>\<open>insertOne\<close> resolve to
  (\<open>Inl\<close> when the promise rejects). The issues of a failed parse are held as the
  text \<^verbatim>\<open>JSON.stringify\<close> gives for them. An \<^verbatim>\<open>async\<close> method is modelled by
  what its promise settles to.
\<close>

type_synonym doc = "(string \<times> jsval) list"

type_synonym projection = "(string \<times> nat) list"

type_synonym issues = string

text \<open>\<^verbatim>\<open>Object.fromEntries\<close>: each entry creates or overwrites an own property.\<close>

definition Object_fromEntries :: "(string \<times> 'v) list \<Rightarrow> (string \<times> 'v) list" where
  "Object_fromEntries es = fold (\<lambda>(k, v). define_property k v) es []"

text \<open>
  The response envelopes \<^verbatim>\<open>InsertResponse\<close> and \<^verbatim>\<open>QueryResponseSingle\<close>;
  \<open>None\<close> is \<^verbatim>\<open>null\<close> for \<open>data\<close> and \<^verbatim>\<open>undefined\<close> for the others.
\<close>

datatype response_status = Ok | HasErrors

record 'd response =
  data :: "'d option"
  error :: "string option"
  status :: response_status

record ('d, 'flt) query_response = "'d response" +
  queryFilter :: "'flt option"

text \<open>
  What a method reports on the way: the messages handed to the logger and the contexts
  handed to \<^verbatim>\<open>writeLogErrorIfDev\<close>.
\<close>

datatype log_event = LoggerWarn string | LoggerError string | WriteLogErrorIfDev string

text \<open>
  A schema is a \<^verbatim>\<open>ZodObject\<close> with its shape, or some other schema; the field
  schemas are opaque. The shape is a plain object, so a read of it by name finds its own
  entries and, behind them, the members of \<^verbatim>\<open>Object.prototype\<close>.
\<close>

datatype 's shape_value = FieldSchema 's | Inherited string

datatype 's zod = ZodObject "(string \<times> 's shape_value) list" | ZodOther 's

definition Object_prototype_names :: "string list" where
  "Object_prototype_names =
     [''constructor'', ''__defineGetter__'', ''__defineSetter__'', ''hasOwnProperty'',
      ''__lookupGetter__'', ''__lookupSetter__'', ''isPrototypeOf'', ''propertyIsEnumerable'',
      ''toString'', ''valueOf'', ''__proto__'', ''toLocaleString'']"

text \<open>
  \<^verbatim>\<open>schemaShape[field]\<close>, with \<open>None\<close> where \<^verbatim>\<open>field in schemaShape\<close> is
  false.
\<close>

definition shape_member :: "(string \<times> 's shape_value) list \<Rightarrow> string \<Rightarrow> 's shape_value option" where
  "shape_member schemaShape field =
     (case map_of schemaShape field of
        Some s \<Rightarrow> Some s
      | None \<Rightarrow> if field \<in> set Object_prototype_names then Some (Inherited field) else None)"

record ('s, 'flt) repo =
  collectionName :: string
  schema :: "'s zod"
  safeParse :: "'s zod \<Rightarrow> doc \<Rightarrow> issues + doc"
  collection_findOne :: "'flt \<Rightarrow> projection option \<Rightarrow> error + doc option"
  collection_insertOne :: "doc \<Rightarrow> error + bool"

definition generateProjection :: "string list option \<Rightarrow> projection option" where
  "generateProjection select =
     (case select of
        Some sel \<Rightarrow> Some (Object_fromEntries (map (\<lambda>field. (field, 1)) sel))
      | None \<Rightarrow> None)"

definition generateDynamicSchema :: "'s zod \<Rightarrow> string list option \<Rightarrow> error + 's zod" where
  "generateDynamicSchema sch select =
     (case select of
        None \<Rightarrow> Inr sch
      | Some sel \<Rightarrow>
          if length sel = 0 then Inr sch
          else (case sch of
                  ZodOther s \<Rightarrow> Inl (Error ''Only object Zod schemas are supported for select'')
                | ZodObject schemaShape \<Rightarrow>
                    Inr (ZodObject (Object_fromEntries
                      (concat (map (\<lambda>field. case shape_member schemaShape field of
                                               Some s \<Rightarrow> [(field, s)]
                                             | None \<Rightarrow> []) sel))))))"

definition generateProjectionAndSchema ::
  "'s zod \<Rightarrow> string list option \<Rightarrow> error + (projection option \<times> 's zod)" where
  "generateProjectionAndSchema sch select =
     (case generateDynamicSchema sch select of
        Inl e \<Rightarrow> Inl e
      | Inr dynamicSchema \<Rightarrow> Inr (generateProjection select, dynamicSchema))"

definition findOne ::
  "('s, 'flt) repo \<Rightarrow> 'flt \<Rightarrow> string list option
     \<Rightarrow> error + ((doc, 'flt) query_response \<times> log_event list)" where
  "findOne r qfilter select =
     (case generateProjectionAndSchema (schema r) select of
        Inl e \<Rightarrow> Inl e
      | Inr (projection, dynamicSchema) \<Rightarrow>
          (case collection_findOne r qfilter projection of
             Inl e \<Rightarrow> Inl e
           | Inr None \<Rightarrow>
               Inr (\<lparr>data = None, error = None, status = Ok, queryFilter = None\<rparr>, [])
           | Inr (Some result) \<Rightarrow>
               (case safeParse r dynamicSchema result of
                  Inr d \<Rightarrow>
                    Inr (\<lparr>data = Some d, error = None, status = Ok, queryFilter = None\<rparr>, [])
                | Inl parseError \<Rightarrow>
                    (let errorMsg = ''1 '' @ collectionName r
                                      @ '' document failed validation during findOne''
                     in Inr (\<lparr>data = None, error = Some errorMsg, status = HasErrors,
                               queryFilter = Some qfilter\<rparr>,
                             [LoggerWarn errorMsg,
                              WriteLogErrorIfDev (collectionName r @ ''.findOne'')])))))"

text \<open>
  \<^verbatim>\<open>buildInsertPayload\<close>: the spread copies the input, and the three properties
  after it replace or add their keys. \<open>now\<close> is the value of \<^verbatim>\<open>new Date()\<close>
  and \<open>oid\<close> that of \<^verbatim>\<open>new ObjectId()\<close>.
\<close>

definition buildInsertPayload :: "jsval \<Rightarrow> jsval \<Rightarrow> doc \<Rightarrow> doc" where
  "buildInsertPayload now oid input =
     define_property ''updated_at'' now
       (define_property ''created_at'' now (define_property ''_id'' oid input))"

text \<open>
  \<^verbatim>\<open>insertOne\<close>. The document handed to the driver and the one returned are both
  the schema's parse output. The driver's own completion of a document that has no
  \<^verbatim>\<open>_id\<close> is not modelled.
\<close>

definition insertOne ::
  "('s, 'flt) repo \<Rightarrow> jsval \<Rightarrow> jsval \<Rightarrow> doc \<Rightarrow> doc response \<times> log_event list" where
  "insertOne r now oid input =
     (let input' = buildInsertPayload now oid input in
      case safeParse r (schema r) input' of
        Inl errorIssues \<Rightarrow>
          (let errorMsg = ''Failed to insert document: schema validation failed'';
               errorFull = errorMsg @ '' '' @ errorIssues
           in (\<lparr>data = None, error = Some errorFull, status = HasErrors\<rparr>,
               [LoggerWarn errorMsg, WriteLogErrorIfDev (collectionName r @ ''.insertOne'')]))
      | Inr parsedData \<Rightarrow>
          (case collection_insertOne r parsedData of
             Inl err \<Rightarrow>
               (\<lparr>data = None, error = Some ''MongoDB failed to insertOne'', status = HasErrors\<rparr>,
                [LoggerError ''MongoDB failed to insertOne'',
                 WriteLogErrorIfDev (collectionName r @ ''.insertOne'')])
           | Inr acknowledged \<Rightarrow>
               if \<not> acknowledged then
                 (\<lparr>data = None, error = Some ''MongoDB failed to acknowledge insert'',
                   status = HasErrors\<rparr>,
                  [LoggerError ''MongoDB failed to acknowledge insert'',
                   WriteLogErrorIfDev (collectionName r @ ''.insertOne'')])
               else (\<lparr>data = Some parsedData, error = None, status = Ok\<rparr>, [])))"

text \<open>
  Collaborators to build examples from: a collection in which nothing matches and every
  insert is acknowledged, a schema that returns the document it is given, and one with a
  transform on \<^verbatim>\<open>updated_at\<close>.
\<close>

definition no_match_findOne :: "nat \<Rightarrow> projection option \<Rightarrow> error + doc option" where
  "no_match_findOne qfilter projection = Inr None"

definition acknowledging_insertOne :: "doc \<Rightarrow> error + bool" where
  "acknowledging_insertOne d = Inr True"

definition passing_safeParse :: "nat zod \<Rightarrow> doc \<Rightarrow> issues + doc" where
  "passing_safeParse sch d = Inr d"

definition restamping_safeParse :: "nat zod \<Rightarrow> doc \<Rightarrow> issues + doc" where
  "restamping_safeParse sch d = Inr (define_property ''updated_at'' (JNum 0) d)"

definition passing_repo :: "(nat, nat) repo" where
  "passing_repo =
     \<lparr>collectionName = ''users'', schema = ZodOther 0, safeParse = passing_safeParse,
      collection_findOne = no_match_findOne, collection_insertOne = acknowledging_insertOne\<rparr>"

definition restamping_repo :: "(nat, nat) repo" where
  "restamping_repo =
     \<lparr>collectionName = ''users'', schema = ZodOther 0, safeParse = restamping_safeParse,
      collection_findOne = no_match_findOne, collection_insertOne = acknowledging_insertOne\<rparr>"

section \<open>Properties of the extractor\<close>

subsection \<open>Own properties\<close>

lemma map_of_insert_property:
  "k \<notin> fst ` set ps \<Longrightarrow> map_of (insert_property k v ps) = (map_of ps)(k \<mapsto> v)"
  by (induction ps) (auto simp: fun_upd_twist)


lemma map_of_define_property: "map_of (define_property k v ps) = (map_of ps)(k \<mapsto> v)"
  by (simp add: define_property_def update_conv' map_of_insert_property)

lemma assign_plain_name:
  "f \<noteq> ''__proto__'' \<Longrightarrow> map_of (own (assign h k v e)) f = ((map_of (own e))(k \<mapsto> v)) f"
  by (auto simp: assign_def update_conv' map_of_insert_property split: jsval.splits)



subsection \<open>The loops as a list of writes\<close>

lemma block_writes_Nil [simp]: "block_writes key [] = []"
  by (simp add: block_writes_def)

lemma block_writes_Cons [simp]:
  "block_writes key ((f, v) # blk) =
     (f, if key = ''$unset'' then JUndefined else v) # block_writes key blk"
  by (simp add: block_writes_def)

lemma block_writes_names [simp]: "map fst (block_writes key blk) = map fst blk"
  by (induction blk) auto

lemma apply_writes_Nil [simp]: "apply_writes h [] acc = acc"
  by (simp add: apply_writes_def)

lemma apply_writes_Cons [simp]:
  "apply_writes h ((k, v) # ws) acc = apply_writes h ws (assign h k v acc)"
  by (simp add: apply_writes_def)

lemma apply_writes_append [simp]:
  "apply_writes h (xs @ ys) acc = apply_writes h ys (apply_writes h xs acc)"
  by (simp add: apply_writes_def)

lemma walk_fields_char:
  "walk_fields h key blk acc =
     (case find includes_dot (map fst blk) of
        Some k \<Rightarrow> Inl (Error (dot_notation_message k))
      | None \<Rightarrow> Inr (apply_writes h (block_writes key blk) acc))"
  by (induction blk arbitrary: acc) (auto split: option.splits)

lemma find_append_case:
  "find P (xs @ ys) = (case find P xs of Some x \<Rightarrow> Some x | None \<Rightarrow> find P ys)"
  by (induction xs) auto

lemma writes_Nil [simp]: "writes h [] = []"
  by (simp add: writes_def)

lemma writes_Cons [simp]: "writes h (e # es) = entry_writes h e @ writes h es"
  by (simp add: writes_def)

lemma writes_append [simp]: "writes h (xs @ ys) = writes h xs @ writes h ys"
  by (simp add: writes_def)

lemma field_names_Nil [simp]: "field_names h [] = []"
  by (simp add: field_names_def)

lemma field_names_append [simp]:
  "field_names h (xs @ ys) = field_names h xs @ field_names h ys"
  by (simp add: field_names_def)

lemma walk_entries_char:
  "walk_entries h entries acc =
     (case find includes_dot (field_names h entries) of
        Some k \<Rightarrow> Inl (Error (dot_notation_message k))
      | None \<Rightarrow> Inr (apply_writes h (writes h entries) acc))"
proof (induction entries arbitrary: acc)
  case Nil
  show ?case by simp
next
  case (Cons e es)
  obtain key val where e: "e = (key, val)" by (cases e)
  show ?case
  proof (cases "startsWith_dollar key")
    case op: True
    show ?thesis
    proof (cases "typeof val = ''object'' \<and> val \<noteq> JNull")
      case True
      with op e Cons.IH show ?thesis
        by (simp add: walk_fields_char field_names_def entry_writes_def find_append_case
              split: option.splits cong: option.case_cong)
    next
      case False
      have "entry_writes h e = []"
        using op False e by (cases val) (simp_all add: entry_writes_def)
      then have "writes h (e # es) = writes h es"
        by simp
      moreover have "walk_entries h (e # es) acc = walk_entries h es acc"
        using op False e by (cases val) simp_all
      ultimately show ?thesis
        using Cons.IH by (simp add: field_names_def del: writes_Cons cong: option.case_cong)
    qed
  next
    case False
    with e Cons.IH show ?thesis
      by (simp add: field_names_def entry_writes_def cong: option.case_cong)
  qed
qed

lemma extractUpdatePayload_char:
  "extractUpdatePayload h update =
     (case find includes_dot (field_names h (Object_entries update)) of
        Some k \<Rightarrow> Inl (Error (dot_notation_message k))
      | None \<Rightarrow> Inr (apply_writes h (writes h (Object_entries update)) empty_object))"
  by (simp add: extractUpdatePayload_def walk_def walk_entries_char)

lemma apply_writes_plain_name:
  "f \<noteq> ''__proto__'' \<Longrightarrow>
     map_of (own (apply_writes h ws acc)) f = (map_of (own acc) ++ map_of (rev ws)) f"
proof (induction ws arbitrary: acc)
  case Nil
  show ?case by simp
next
  case (Cons w ws)
  obtain k v where w: "w = (k, v)" by (cases w)
  show ?case
    using Cons w by (simp add: assign_plain_name map_add_def split: option.splits)
qed


subsection \<open>Entries that are passed over\<close>

lemma walk_entries_append:
  "walk_entries h (xs @ ys) acc =
     (case walk_entries h xs acc of Inl e \<Rightarrow> Inl e | Inr acc' \<Rightarrow> walk_entries h ys acc')"
  by (induction xs arbitrary: acc) (auto split: sum.splits)

text \<open>
  Claim C7. An entry of the update expression whose key begins with \<^verbatim>\<open>$\<close> and
  whose value is not a non-null object is skipped: the extraction gives exactly what it
  gives for the expression without that entry, payload or error, so the entry contributes
  no key, raises nothing, and the entries around it are processed as usual.
\<close>

theorem skip_non_object_operator:
  assumes "startsWith_dollar key"
    and "\<not> (typeof val = ''object'' \<and> val \<noteq> JNull)"
    and "Object_entries update = before @ (key, val) # after"
    and "Object_entries update' = before @ after"
  shows "extractUpdatePayload h update = extractUpdatePayload h update'"
proof -
  have "walk_entries h ((key, val) # after) acc = walk_entries h after acc" for acc
    using assms(1,2) by auto
  then show ?thesis
    using assms(3,4)
    by (simp add: extractUpdatePayload_def walk_def walk_entries_append
          del: walk_entries.simps cong: sum.case_cong)
qed

theorem skip_non_object_operator_witness:
  "startsWith_dollar ''$set'' \<and> \<not> (typeof (JNum 5) = ''object'' \<and> JNum 5 \<noteq> JNull)
   \<and> extractUpdatePayload empty_store
        (PlainObject [(''name'', JStr ''Alice''), (''$set'', JNum 5), (''count'', JNum 42)])
     = Inr \<lparr>own = [(''name'', JStr ''Alice''), (''count'', JNum 42)], proto = ObjectPrototype\<rparr>"
proof -
  have a: "startsWith_dollar ''$set''" by simp
  have b: "\<not> (typeof (JNum 5) = ''object'' \<and> JNum 5 \<noteq> JNull)" by simp
  have c: "Object_entries (PlainObject [(''name'', JStr ''Alice''), (''$set'', JNum 5), (''count'', JNum 42)])
             = [(''name'', JStr ''Alice'')] @ (''$set'', JNum 5) # [(''count'', JNum 42)]"
    by simp
  have d: "Object_entries (PlainObject [(''name'', JStr ''Alice''), (''count'', JNum 42)])
             = [(''name'', JStr ''Alice'')] @ [(''count'', JNum 42)]"
    by simp
  have e: "extractUpdatePayload empty_store
             (PlainObject [(''name'', JStr ''Alice''), (''count'', JNum 42)])
           = Inr \<lparr>own = [(''name'', JStr ''Alice''), (''count'', JNum 42)], proto = ObjectPrototype\<rparr>"
    by (simp add: extractUpdatePayload_def walk_def assign_def includes_dot_def empty_object_def
          listed_before_def array_index_def is_digit_def)
  show ?thesis
    using a b e skip_non_object_operator [OF a b c d, of "empty_store"] by simp
qed

subsection \<open>Field names and last writes\<close>

lemma block_writes_keys [simp]: "fst ` set (block_writes key blk) = fst ` set blk"
  using block_writes_names [of key blk] by (metis set_map)

lemma mem_entry_writes:
  "k \<in> fst ` set (entry_writes h (key, val)) \<longleftrightarrow>
     (\<not> startsWith_dollar key \<and> k = key) \<or>
     (startsWith_dollar key \<and> (\<exists>a v. val = JRef a \<and> (k, v) \<in> set (Object_entries (h a))))"
proof -
  have "(\<exists>v. (k, v) \<in> set blk) \<longleftrightarrow> k \<in> fst ` set (block_writes key blk)" for blk
    by (simp add: image_iff) force
  then show ?thesis
    by (cases val) (simp_all add: entry_writes_def del: block_writes_keys)
qed

lemma mem_field_names:
  "k \<in> set (field_names h entries) \<longleftrightarrow>
     (\<exists>v. (k, v) \<in> set entries \<and> \<not> startsWith_dollar k) \<or>
     (\<exists>op a v. (op, JRef a) \<in> set entries \<and> startsWith_dollar op
        \<and> (k, v) \<in> set (Object_entries (h a)))"
proof -
  have "k \<in> set (field_names h entries) \<longleftrightarrow>
          (\<exists>e \<in> set entries. k \<in> fst ` set (entry_writes h e))"
    by (auto simp: field_names_def writes_def)
  also have "\<dots> \<longleftrightarrow> (\<exists>key val. (key, val) \<in> set entries \<and> k \<in> fst ` set (entry_writes h (key, val)))"
    by auto
  also have "\<dots> \<longleftrightarrow>
     (\<exists>v. (k, v) \<in> set entries \<and> \<not> startsWith_dollar k) \<or>
     (\<exists>op a v. (op, JRef a) \<in> set entries \<and> startsWith_dollar op
        \<and> (k, v) \<in> set (Object_entries (h a)))"
    unfolding mem_entry_writes by blast
  finally show ?thesis .
qed

lemma nested_value_distinct:
  "distinct (map fst blk) \<Longrightarrow> nested_value blk f = map_of blk f"
proof (induction blk)
  case Nil
  show ?case by (simp add: nested_value_def)
next
  case (Cons e blk)
  obtain k v where e: "e = (k, v)" by (cases e)
  have "map_of blk k = None"
    using Cons.prems e by (simp add: map_of_eq_None_iff)
  then show ?case
    using Cons e by (simp add: nested_value_def map_add_def split: option.splits)
qed

lemma map_of_rev_block_writes:
  "map_of (rev (block_writes key blk)) f =
     map_option (\<lambda>v. if key = ''$unset'' then JUndefined else v) (nested_value blk f)"
proof -
  have "map_of (map (\<lambda>(k, v). (k, g v)) xs) f = map_option g (map_of xs f)"
    for g :: "jsval \<Rightarrow> jsval" and xs
    by (induction xs) auto
  then show ?thesis
    by (simp add: nested_value_def block_writes_def rev_map)
qed


subsection \<open>Dotted field names\<close>

text \<open>
  Claim C2. When a field name of the update expression, a direct top-level key or a name
  nested inside an operator block, contains \<^verbatim>\<open>.\<close>, the extraction throws and
  returns no payload. The message is
  \<^verbatim>\<open>Dot notation keys are not supported yet: "<fieldName>"\<close> with the first dotted
  field name in iteration order, verbatim.
\<close>

theorem dot_notation_rejected:
  assumes "k \<in> set (field_names h (Object_entries update))"
    and "includes_dot k"
  shows "\<exists>k'. find includes_dot (field_names h (Object_entries update)) = Some k'
           \<and> k' \<in> set (field_names h (Object_entries update)) \<and> includes_dot k'
           \<and> extractUpdatePayload h update =
               Inl (Error (''Dot notation keys are not supported yet: '' @ [CHR 0x22] @ k' @ [CHR 0x22]))"
proof -
  from assms obtain k' where f: "find includes_dot (field_names h (Object_entries update)) = Some k'"
    by (cases "find includes_dot (field_names h (Object_entries update))") (auto simp: find_None_iff)
  then have "k' \<in> set (field_names h (Object_entries update))" "includes_dot k'"
    by (auto simp: find_Some_iff)
  with f show ?thesis
    by (simp add: extractUpdatePayload_char dot_notation_message_def)
qed

theorem dot_notation_rejected_witness:
  "''user.name'' \<in> set (field_names (empty_store(0 := PlainObject [(''user.name'', JStr ''Alice'')]))
                           (Object_entries (PlainObject [(''$set'', JRef 0)])))
   \<and> includes_dot ''user.name''
   \<and> extractUpdatePayload (empty_store(0 := PlainObject [(''user.name'', JStr ''Alice'')]))
         (PlainObject [(''$set'', JRef 0)])
       = Inl (Error (''Dot notation keys are not supported yet: '' @ [CHR 0x22] @ ''user.name'' @ [CHR 0x22]))"
proof -
  let ?h = "empty_store(0 := PlainObject [(''user.name'', JStr ''Alice'')])"
  let ?u = "PlainObject [(''$set'', JRef 0)]"
  have names: "field_names ?h (Object_entries ?u) = [''user.name'']"
    by (simp add: field_names_def entry_writes_def)
  have mem: "''user.name'' \<in> set (field_names ?h (Object_entries ?u))"
    using names by simp
  have dot: "includes_dot ''user.name''"
    by (simp add: includes_dot_def)
  from dot_notation_rejected [OF mem dot] obtain k' where
    k': "find includes_dot (field_names ?h (Object_entries ?u)) = Some k'"
    and r: "extractUpdatePayload ?h ?u =
              Inl (Error (''Dot notation keys are not supported yet: '' @ [CHR 0x22] @ k' @ [CHR 0x22]))"
    by blast
  from k' names dot have "k' = ''user.name''"
    by simp
  with r mem dot show ?thesis by simp
qed

subsection \<open>The last write stands\<close>

lemma last_write_wins:
  assumes "map_of (rev ws) f = Some v" and "f \<noteq> ''__proto__''"
  shows "map_of (own (apply_writes h (before @ ws @ after) acc)) f
           = (case map_of (rev after) f of Some x \<Rightarrow> Some x | None \<Rightarrow> Some v)"
  using assms by (simp add: apply_writes_plain_name map_add_def split: option.splits)

lemma not_written_after:
  "f \<notin> set (field_names h after) \<Longrightarrow> map_of (rev (writes h after)) f = None"
  by (simp add: field_names_def map_of_eq_None_iff)

lemma dot_free_succeeds:
  assumes "\<forall>k \<in> set (field_names h (Object_entries update)). \<not> includes_dot k"
  shows "extractUpdatePayload h update
           = Inr (apply_writes h (writes h (Object_entries update)) empty_object)"
proof -
  have "find includes_dot (field_names h (Object_entries update)) = None"
    using assms by (simp add: find_None_iff)
  then show ?thesis
    by (simp add: extractUpdatePayload_char)
qed

text \<open>
  Claim C4 as stated fails when a later entry assigns the field again: for
  \<^verbatim>\<open>{ $set: { count: 1 }, $inc: { count: 2 }, count: 3 }\<close> the payload holds
  \<^verbatim>\<open>count: 3\<close>, not the value of the later operator block.
\<close>

theorem later_operator_overwritten_counterexample:
  "extractUpdatePayload
     (empty_store(0 := PlainObject [(''count'', JNum 1)], 1 := PlainObject [(''count'', JNum 2)]))
     (PlainObject [(''$set'', JRef 0), (''$inc'', JRef 1), (''count'', JNum 3)])
   = Inr \<lparr>own = [(''count'', JNum 3)], proto = ObjectPrototype\<rparr>"
  by (simp add: extractUpdatePayload_def walk_def assign_def includes_dot_def empty_object_def
        listed_before_def)

text \<open>
  Claim C4, as amended. When two operator blocks of an update expression both assign a
  field other than \<^verbatim>\<open>__proto__\<close>, the expression has no dotted field name, no direct
  top-level key is that field and nothing after the later block assigns it again, the
  payload holds for that field what the later block contributes: its nested value, or
  \<^verbatim>\<open>undefined\<close> when the later block is \<^verbatim>\<open>$unset\<close>.
\<close>

theorem later_operator_wins:
  assumes "Object_entries update = before @ (op1, JRef a1) # between @ (op2, JRef a2) # after"
    and "startsWith_dollar op1" and "startsWith_dollar op2"
    and "f \<in> fst ` set (Object_entries (h a1))"
    and "nested_value (Object_entries (h a2)) f = Some v"
    and "f \<noteq> ''__proto__''"
    and "f \<notin> set (field_names h after)"
    and "f \<notin> set (direct_keys (Object_entries update))"
    and "\<forall>k \<in> set (field_names h (Object_entries update)). \<not> includes_dot k"
  shows "\<exists>p. extractUpdatePayload h update = Inr p
           \<and> map_of (own p) f = Some (if op2 = ''$unset'' then JUndefined else v)"
proof -
  let ?ws = "entry_writes h (op2, JRef a2)"
  have w: "writes h (Object_entries update)
             = writes h (before @ (op1, JRef a1) # between) @ ?ws @ writes h after"
    using assms(1) by simp
  have "map_of (rev ?ws) f = Some (if op2 = ''$unset'' then JUndefined else v)"
    using assms(3,5) by (simp add: entry_writes_def map_of_rev_block_writes)
  from last_write_wins [OF this assms(6),
      of h "writes h (before @ (op1, JRef a1) # between)" "writes h after" empty_object]
  have "map_of (own (apply_writes h (writes h (Object_entries update)) empty_object)) f
               = Some (if op2 = ''$unset'' then JUndefined else v)"
    unfolding w using not_written_after [OF assms(7)] by simp
  then show ?thesis
    using dot_free_succeeds [OF assms(9)] by simp
qed

theorem later_operator_wins_witness:
  "Object_entries (PlainObject [(''$set'', JRef 0), (''$inc'', JRef 1)])
     = [] @ (''$set'', JRef 0) # [] @ (''$inc'', JRef 1) # []
   \<and> startsWith_dollar ''$set'' \<and> startsWith_dollar ''$inc''
   \<and> ''count'' \<in> fst ` set (Object_entries
         ((empty_store(0 := PlainObject [(''count'', JNum 1)], 1 := PlainObject [(''count'', JNum 2)])) 0))
   \<and> nested_value (Object_entries
         ((empty_store(0 := PlainObject [(''count'', JNum 1)], 1 := PlainObject [(''count'', JNum 2)])) 1))
         ''count'' = Some (JNum 2)
   \<and> ''count'' \<noteq> ''__proto__''
   \<and> ''count'' \<notin> set (field_names
         (empty_store(0 := PlainObject [(''count'', JNum 1)], 1 := PlainObject [(''count'', JNum 2)])) [])
   \<and> ''count'' \<notin> set (direct_keys (Object_entries (PlainObject [(''$set'', JRef 0), (''$inc'', JRef 1)])))
   \<and> find includes_dot (field_names
         (empty_store(0 := PlainObject [(''count'', JNum 1)], 1 := PlainObject [(''count'', JNum 2)]))
         (Object_entries (PlainObject [(''$set'', JRef 0), (''$inc'', JRef 1)]))) = None
   \<and> (\<exists>p. extractUpdatePayload
         (empty_store(0 := PlainObject [(''count'', JNum 1)], 1 := PlainObject [(''count'', JNum 2)]))
         (PlainObject [(''$set'', JRef 0), (''$inc'', JRef 1)]) = Inr p
        \<and> map_of (own p) ''count'' = Some (JNum 2))"
proof -
  let ?h = "empty_store(0 := PlainObject [(''count'', JNum 1)], 1 := PlainObject [(''count'', JNum 2)])"
  let ?u = "PlainObject [(''$set'', JRef 0), (''$inc'', JRef 1)]"
  have a: "Object_entries ?u = [] @ (''$set'', JRef 0) # [] @ (''$inc'', JRef 1) # []"
    by simp
  have b: "startsWith_dollar ''$set''" and c: "startsWith_dollar ''$inc''"
    by simp_all
  have d: "''count'' \<in> fst ` set (Object_entries (?h 0))"
    by simp
  have e: "nested_value (Object_entries (?h 1)) ''count'' = Some (JNum 2)"
    by (simp add: nested_value_def)
  have n: "''count'' \<noteq> ''__proto__''"
    by simp
  have f: "''count'' \<notin> set (field_names ?h [])"
    by simp
  have k: "''count'' \<notin> set (direct_keys (Object_entries ?u))"
    by (simp add: direct_keys_def)
  have g: "\<forall>k \<in> set (field_names ?h (Object_entries ?u)). \<not> includes_dot k"
    by (simp add: field_names_def entry_writes_def includes_dot_def)
  from later_operator_wins [OF a b c d e n f k g]
  have "\<exists>p. extractUpdatePayload ?h ?u = Inr p \<and> map_of (own p) ''count'' = Some (JNum 2)"
    by simp
  moreover have "find includes_dot (field_names ?h (Object_entries ?u)) = None"
    using g by (simp only: find_None_iff) blast
  ultimately show ?thesis
    using a b c d e n f k by blast
qed

subsection \<open>A direct key before an operator block\<close>

text \<open>
  Claim C1, at the input \<^verbatim>\<open>{ name: "Alice", $set: { name: "John" } }\<close>: the loop is
  one pass in key order, so the operator block that follows the direct key overwrites
  its value, and the payload is \<^verbatim>\<open>{ name: "John" }\<close>.
\<close>

theorem direct_key_before_operator_loses:
  "extractUpdatePayload (empty_store(0 := PlainObject [(''name'', JStr ''John'')]))
     (PlainObject [(''name'', JStr ''Alice''), (''$set'', JRef 0)])
   = Inr \<lparr>own = [(''name'', JStr ''John'')], proto = ObjectPrototype\<rparr>"
  by (simp add: extractUpdatePayload_def walk_def assign_def includes_dot_def empty_object_def
        listed_before_def)

text \<open>
  Claim C6, at the same input: the extraction returns \<^verbatim>\<open>{ name: "John" }\<close> and the
  two-pass reference \<^verbatim>\<open>{ name: "Alice" }\<close>.
\<close>

theorem single_pass_differs_from_two_pass:
  "extractUpdatePayload (empty_store(0 := PlainObject [(''name'', JStr ''John'')]))
     (PlainObject [(''name'', JStr ''Alice''), (''$set'', JRef 0)])
     = Inr \<lparr>own = [(''name'', JStr ''John'')], proto = ObjectPrototype\<rparr>
   \<and> spec_two_pass (empty_store(0 := PlainObject [(''name'', JStr ''John'')]))
     (PlainObject [(''name'', JStr ''Alice''), (''$set'', JRef 0)])
     = Inr [(''name'', JStr ''Alice'')]"
  by (simp add: extractUpdatePayload_def walk_def spec_two_pass_def assign_def includes_dot_def
        empty_object_def listed_before_def define_property_def)

subsection \<open>The field name \<^verbatim>\<open>__proto__\<close>\<close>

text \<open>
  Claim C3, at the input \<^verbatim>\<open>JSON.parse('{"$set":{"__proto__":{"x":1},"b":2}}')\<close>: the
  nested field names are \<^verbatim>\<open>__proto__\<close> and \<^verbatim>\<open>b\<close>, and the payload has the one
  key \<^verbatim>\<open>b\<close>; the assignment to \<^verbatim>\<open>__proto__\<close> replaced its prototype.
\<close>

theorem proto_field_is_no_key:
  "field_names
     (empty_store(0 := PlainObject [(''__proto__'', JRef 1), (''b'', JNum 2)],
                  1 := PlainObject [(''x'', JNum 1)]))
     (Object_entries (PlainObject [(''$set'', JRef 0)]))
     = [''__proto__'', ''b'']
   \<and> extractUpdatePayload
     (empty_store(0 := PlainObject [(''__proto__'', JRef 1), (''b'', JNum 2)],
                  1 := PlainObject [(''x'', JNum 1)]))
     (PlainObject [(''$set'', JRef 0)])
     = Inr \<lparr>own = [(''b'', JNum 2)], proto = RefPrototype 1\<rparr>"
  by (simp add: field_names_def entry_writes_def extractUpdatePayload_def walk_def assign_def
        includes_dot_def empty_object_def listed_before_def)

subsection \<open>Values are moved, not read\<close>







subsection \<open>Operators other than \<^verbatim>\<open>$unset\<close>\<close>



section \<open>Properties of the repository operations\<close>

text \<open>
  Claim C9. When the projection and schema are generated and the driver's lookup yields
  \<^verbatim>\<open>null\<close>, \<^verbatim>\<open>findOne\<close> resolves to \<^verbatim>\<open>{ data: null, status: "ok" }\<close>
  with no error and no query filter, and reports nothing.
\<close>

theorem findOne_no_match:
  assumes "generateProjectionAndSchema (schema r) select = Inr (projection, dynamicSchema)"
    and "collection_findOne r qfilter projection = Inr None"
  shows "findOne r qfilter select
           = Inr (\<lparr>data = None, error = None, status = Ok, queryFilter = None\<rparr>, [])"
  using assms by (simp add: findOne_def)

theorem findOne_no_match_witness:
  "generateProjectionAndSchema (schema passing_repo) (Some [''name''])
     = Inl (Error ''Only object Zod schemas are supported for select'')
   \<and> generateProjectionAndSchema (schema passing_repo) None = Inr (None, ZodOther 0)
   \<and> collection_findOne passing_repo 7 None = Inr None
   \<and> findOne passing_repo 7 None
       = Inr (\<lparr>data = None, error = None, status = Ok, queryFilter = None\<rparr>, [])"
proof -
  have a: "generateProjectionAndSchema (schema passing_repo) None = Inr (None, ZodOther 0)"
    by (simp add: generateProjectionAndSchema_def generateDynamicSchema_def
          generateProjection_def passing_repo_def)
  have b: "collection_findOne passing_repo 7 None = Inr None"
    by (simp add: passing_repo_def no_match_findOne_def)
  have c: "generateProjectionAndSchema (schema passing_repo) (Some [''name''])
             = Inl (Error ''Only object Zod schemas are supported for select'')"
    by (simp add: generateProjectionAndSchema_def generateDynamicSchema_def passing_repo_def)
  from findOne_no_match [OF a b] a b c show ?thesis
    by simp
qed

lemma buildInsertPayload_fields:
  "map_of (buildInsertPayload now oid input) =
     (map_of input)(''_id'' \<mapsto> oid, ''created_at'' \<mapsto> now, ''updated_at'' \<mapsto> now)"
  by (simp add: buildInsertPayload_def map_of_define_property)

lemma insertOne_ok:
  assumes "insertOne r now oid input = (resp, logs)" and "status resp = Ok"
  shows "\<exists>d. safeParse r (schema r) (buildInsertPayload now oid input) = Inr d
           \<and> collection_insertOne r d = Inr True \<and> data resp = Some d \<and> logs = []"
  using assms
  by (auto simp: insertOne_def Let_def split: sum.splits if_splits)

text \<open>
  Claim C10 as stated fails for a schema that transforms \<^verbatim>\<open>updated_at\<close>: the
  document a successful \<^verbatim>\<open>insertOne\<close> returns is the schema's parse output, here with
  \<^verbatim>\<open>created_at\<close> and \<^verbatim>\<open>updated_at\<close> different.
\<close>

theorem insertOne_restamped_counterexample:
  "insertOne restamping_repo (JRef 1) (JRef 2) [(''name'', JStr ''Ann'')]
     = (\<lparr>data = Some [(''name'', JStr ''Ann''), (''_id'', JRef 2), (''created_at'', JRef 1),
                      (''updated_at'', JNum 0)],
         error = None, status = Ok\<rparr>, [])"
  by (simp add: insertOne_def buildInsertPayload_def define_property_def listed_before_def
        array_index_def is_digit_def restamping_repo_def restamping_safeParse_def
        acknowledging_insertOne_def)

text \<open>
  Claim C10, as amended. The document \<^verbatim>\<open>insertOne\<close> builds and validates holds the
  generated \<^verbatim>\<open>ObjectId\<close> under \<^verbatim>\<open>_id\<close> and one timestamp under both
  \<^verbatim>\<open>created_at\<close> and \<^verbatim>\<open>updated_at\<close>, whatever the caller supplied for them.
  A successful \<^verbatim>\<open>insertOne\<close> returns the schema's parse output for that document;
  when the schema's parse leaves the two fields as it finds them, both hold that
  timestamp in the returned document.
\<close>

theorem insertOne_timestamps:
  assumes "insertOne r now oid input = (resp, logs)"
    and "status resp = Ok"
    and "\<forall>p d. safeParse r (schema r) p = Inr d \<longrightarrow>
           map_of d ''created_at'' = map_of p ''created_at''
           \<and> map_of d ''updated_at'' = map_of p ''updated_at''"
  shows "map_of (buildInsertPayload now oid input) ''_id'' = Some oid
         \<and> map_of (buildInsertPayload now oid input) ''created_at'' = Some now
         \<and> map_of (buildInsertPayload now oid input) ''updated_at'' = Some now
         \<and> (\<exists>d. safeParse r (schema r) (buildInsertPayload now oid input) = Inr d
                \<and> data resp = Some d
                \<and> map_of d ''created_at'' = Some now \<and> map_of d ''updated_at'' = Some now)"
proof -
  from insertOne_ok [OF assms(1,2)] obtain d where
    d: "safeParse r (schema r) (buildInsertPayload now oid input) = Inr d" "data resp = Some d"
    by blast
  with assms(3) have "map_of d ''created_at'' = map_of (buildInsertPayload now oid input) ''created_at''"
    and "map_of d ''updated_at'' = map_of (buildInsertPayload now oid input) ''updated_at''"
    by blast+
  with d show ?thesis
    by (auto simp: buildInsertPayload_fields)
qed

theorem insertOne_timestamps_witness:
  "insertOne passing_repo (JRef 1) (JRef 2) [(''name'', JStr ''Ann''), (''_id'', JStr ''mine'')]
     = (\<lparr>data = Some [(''name'', JStr ''Ann''), (''_id'', JRef 2), (''created_at'', JRef 1),
                      (''updated_at'', JRef 1)],
         error = None, status = Ok\<rparr>, [])
   \<and> map_of (buildInsertPayload (JRef 1) (JRef 2) [(''name'', JStr ''Ann''), (''_id'', JStr ''mine'')])
        ''_id'' = Some (JRef 2)
   \<and> (\<exists>d. data (fst (insertOne passing_repo (JRef 1) (JRef 2)
                        [(''name'', JStr ''Ann''), (''_id'', JStr ''mine'')])) = Some d
          \<and> map_of d ''created_at'' = Some (JRef 1) \<and> map_of d ''updated_at'' = Some (JRef 1))"
proof -
  let ?input = "[(''name'', JStr ''Ann''), (''_id'', JStr ''mine'')]"
  let ?resp = "\<lparr>data = Some [(''name'', JStr ''Ann''), (''_id'', JRef 2), (''created_at'', JRef 1),
                      (''updated_at'', JRef 1)], error = None, status = Ok\<rparr>"
  have a: "insertOne passing_repo (JRef 1) (JRef 2) ?input = (?resp, [])"
    by (simp add: insertOne_def buildInsertPayload_def define_property_def listed_before_def
          array_index_def is_digit_def passing_repo_def passing_safeParse_def
          acknowledging_insertOne_def)
  have b: "status ?resp = Ok"
    by simp
  have c: "\<forall>p d. safeParse passing_repo (schema passing_repo) p = Inr d \<longrightarrow>
           map_of d ''created_at'' = map_of p ''created_at''
           \<and> map_of d ''updated_at'' = map_of p ''updated_at''"
    by (simp add: passing_repo_def passing_safeParse_def)
  from insertOne_timestamps [OF a b c] a show ?thesis
    by auto
qed

end
